theory Spec2Isabelle
  imports Main
begin

section \<open>JavaScript string primitives used by the formatting utilities\<close>

text \<open>
  A JavaScript string is a sequence of UTF-16 code units; \<open>length\<close> and \<open>slice\<close> count
  code units. A \<open>string\<close> here is that sequence, one \<open>char\<close> per code unit.

  \<open>String.prototype.slice(start, end)\<close> resolves each index against the length: a
  negative index counts from the end and is clamped at 0, a non-negative one is clamped
  at the length; an empty range gives the empty string. \<open>slice(start)\<close> runs to the end.
\<close>

definition slice_index :: "nat \<Rightarrow> int \<Rightarrow> nat" where
  "slice_index len i = (if i < 0 then nat (max (int len + i) 0) else min (nat i) len)"

definition slice2 :: "string \<Rightarrow> int \<Rightarrow> int \<Rightarrow> string" where
  "slice2 s start end =
     (let from = slice_index (length s) start;
          to = slice_index (length s) end
      in take (to - from) (drop from s))"

definition slice1 :: "string \<Rightarrow> int \<Rightarrow> string" where
  "slice1 s start = drop (slice_index (length s) start) s"

section \<open>utils/formatUtilService: truncateDescription and formatWalletAddress\<close>

text \<open>
  \<^verbatim>\<open>
  export const truncateDescription = (text, maxLength) => {
      if (text.length <= maxLength) { return text; }
      return text.slice(0, maxLength) + "...";
  };
  \<close>
  \<open>maxLength\<close> is a JavaScript number; the model takes the integers, negative ones
  included, since nothing in the function excludes them.
\<close>

definition truncateDescription :: "string \<Rightarrow> int \<Rightarrow> string" where
  "truncateDescription text maxLength =
     (if int (length text) \<le> maxLength then text
      else slice2 text 0 maxLength @ ''...'')"

text \<open>
  \<^verbatim>\<open>
  export const formatWalletAddress = (address) => {
      if (!address) { return ''; }
      return `${address.slice(0, 8)}...${address.slice(-6)}`;
  };
  \<close>
  The argument is a string or \<open>null\<close>/\<open>undefined\<close> (\<open>None\<close>); both \<open>None\<close> and the
  empty string are falsy.
\<close>

definition formatWalletAddress :: "string option \<Rightarrow> string" where
  "formatWalletAddress address =
     (case address of
        None \<Rightarrow> ''''
      | Some a \<Rightarrow> if a = '''' then '''' else slice2 a 0 8 @ ''...'' @ slice1 a (- 6))"

section \<open>utils/formatUtilService: formatDate\<close>

text \<open>
  \<^verbatim>\<open>
  export const formatDate = (dateString) => {
      return new Date(dateString).toLocaleDateString("en-US", {
          year: "numeric", month: "short", day: "numeric",
      });
  };
  \<close>
  \<open>new Date(s)\<close> parses \<open>s\<close> to a time value, the milliseconds since 1970-01-01T00:00Z.
  \<open>toLocaleDateString\<close> is given a locale and the three fields, but no \<open>timeZone\<close>: it
  renders the calendar date of that instant in the time zone of the host. The host's
  zone is therefore an input of the function; it is the parameter \<open>utc_offset\<close>, the
  minutes the host's local time is ahead of UTC at a given time value.

  The model covers the two shapes of ISO string the documentation of \<open>formatDate\<close>
  names, \<open>YYYY-MM-DD\<close> and \<open>YYYY-MM-DDTHH:mm:ssZ\<close>, both read as UTC, with a valid
  calendar date from the year 1583 on. On any other string the result is \<open>None\<close>:
  what engines do there is not modelled.
\<close>

definition digit_value :: "char \<Rightarrow> nat option" where
  "digit_value c = map_of (zip ''0123456789'' [0 ..< 10]) c"

fun number_from :: "nat \<Rightarrow> string \<Rightarrow> nat option" where
  "number_from acc [] = Some acc"
| "number_from acc (c # cs) =
     (case digit_value c of None \<Rightarrow> None | Some d \<Rightarrow> number_from (10 * acc + d) cs)"

definition field :: "string \<Rightarrow> nat \<Rightarrow> nat \<Rightarrow> int option" where
  "field s start len = map_option int (number_from 0 (take len (drop start s)))"

fun decimal :: "nat \<Rightarrow> string" where
  "decimal n =
     (if n < 10 then [''0123456789'' ! n]
      else decimal (n div 10) @ [''0123456789'' ! (n mod 10)])"

declare decimal.simps [simp del]

definition is_leap :: "int \<Rightarrow> bool" where
  "is_leap y = (y mod 4 = 0 \<and> (y mod 100 \<noteq> 0 \<or> y mod 400 = 0))"

definition days_in_month :: "int \<Rightarrow> int \<Rightarrow> int" where
  "days_in_month y m =
     (if m = 2 then (if is_leap y then 29 else 28)
      else if m = 4 \<or> m = 6 \<or> m = 9 \<or> m = 11 then 30 else 31)"

text \<open>
  Day number of a calendar date and back, counted from 1970-01-01 in the proleptic
  Gregorian calendar (\<open>div\<close> on \<open>int\<close> rounds down, as \<open>Math.floor\<close>).
\<close>

definition days_from_civil :: "int \<Rightarrow> int \<Rightarrow> int \<Rightarrow> int" where
  "days_from_civil y m d =
     (let y' = (if m \<le> 2 then y - 1 else y);
          era = y' div 400;
          yoe = y' - era * 400;
          doy = (153 * (if m > 2 then m - 3 else m + 9) + 2) div 5 + d - 1;
          doe = yoe * 365 + yoe div 4 - yoe div 100 + doy
      in era * 146097 + doe - 719468)"

definition civil_from_days :: "int \<Rightarrow> int \<times> int \<times> int" where
  "civil_from_days z =
     (let z' = z + 719468;
          era = z' div 146097;
          doe = z' - era * 146097;
          yoe = (doe - doe div 1460 + doe div 36524 - doe div 146096) div 365;
          doy = doe - (365 * yoe + yoe div 4 - yoe div 100);
          mp = (5 * doy + 2) div 153;
          d = doy - (153 * mp + 2) div 5 + 1;
          m = (if mp < 10 then mp + 3 else mp - 9);
          y = yoe + era * 400
      in (if m \<le> 2 then y + 1 else y, m, d))"

definition ms_per_day :: int where
  "ms_per_day = 86400000"

definition valid_date :: "int \<Rightarrow> int \<Rightarrow> int \<Rightarrow> bool" where
  "valid_date y m d = (1583 \<le> y \<and> 1 \<le> m \<and> m \<le> 12 \<and> 1 \<le> d \<and> d \<le> days_in_month y m)"

definition parse_date_only :: "string \<Rightarrow> int option" where
  "parse_date_only s =
     (if length s = 10 \<and> s ! 4 = CHR ''-'' \<and> s ! 7 = CHR ''-'' then
        (case (field s 0 4, field s 5 2, field s 8 2) of
           (Some y, Some m, Some d) \<Rightarrow>
             if valid_date y m d then Some (days_from_civil y m d * ms_per_day) else None
         | _ \<Rightarrow> None)
      else None)"

definition parse_date_time_utc :: "string \<Rightarrow> int option" where
  "parse_date_time_utc s =
     (if length s = 20 \<and> s ! 10 = CHR ''T'' \<and> s ! 13 = CHR '':'' \<and> s ! 16 = CHR '':'' \<and>
         s ! 19 = CHR ''Z'' then
        (case (parse_date_only (take 10 s), field s 11 2, field s 14 2, field s 17 2) of
           (Some day_ms, Some h, Some mi, Some sec) \<Rightarrow>
             if h \<le> 23 \<and> mi \<le> 59 \<and> sec \<le> 59
             then Some (day_ms + h * 3600000 + mi * 60000 + sec * 1000) else None
         | _ \<Rightarrow> None)
      else None)"

definition parse_date :: "string \<Rightarrow> int option" where
  "parse_date s = (case parse_date_only s of Some t \<Rightarrow> Some t | None \<Rightarrow> parse_date_time_utc s)"

definition month_short :: "int \<Rightarrow> string" where
  "month_short m =
     [''Jan'', ''Feb'', ''Mar'', ''Apr'', ''May'', ''Jun'',
      ''Jul'', ''Aug'', ''Sep'', ''Oct'', ''Nov'', ''Dec''] ! nat (m - 1)"

definition toLocaleDateString :: "(int \<Rightarrow> int) \<Rightarrow> int \<Rightarrow> string" where
  "toLocaleDateString utc_offset t =
     (let local_ms = t + utc_offset t * 60000;
          (y, m, d) = civil_from_days (local_ms div ms_per_day)
      in month_short m @ '' '' @ decimal (nat d) @ '', '' @ decimal (nat y))"

definition formatDate :: "(int \<Rightarrow> int) \<Rightarrow> string \<Rightarrow> string option" where
  "formatDate utc_offset dateString =
     map_option (toLocaleDateString utc_offset) (parse_date dateString)"

section \<open>MedicalRecordCard: the expand/collapse map\<close>

text \<open>
  \<^verbatim>\<open>
  const [expandedRecords, setExpandedRecords] = useState({})
  const toggleExpand = (recordId) => {
      setExpandedRecords((prev) => ({ ...prev, [recordId]: !prev[recordId] }))
  }
  \<close>
  The state is a plain object, empty at mount; the map holds its own properties, from
  record id to boolean. The spread copies the own properties, and the computed key
  defines an own property whatever its name. Reading \<open>prev[id]\<close> gives the own property
  when there is one. Otherwise the lookup goes to \<open>Object.prototype\<close>: an id that names
  one of its properties (\<open>constructor\<close>, \<open>toString\<close>, \<open>__proto__\<close>, ...) reads as a
  function or an object, which is truthy, and any other id reads as \<open>undefined\<close>, which
  is falsy. The names found on the prototype are the parameter \<open>inherited\<close>;
  \<open>object_prototype_names\<close> is the standard set.

  \<open>is_expanded\<close> is the truth value of \<open>expandedRecords[id]\<close>, the test the card uses to
  choose between the full and the truncated description and between the labels
  "Show less" and "Read more".
\<close>

type_synonym expanded_map = "string \<rightharpoonup> bool"

definition object_prototype_names :: "string \<Rightarrow> bool" where
  "object_prototype_names k =
     (k \<in> set [''constructor'', ''hasOwnProperty'', ''isPrototypeOf'',
                ''propertyIsEnumerable'', ''toLocaleString'', ''toString'', ''valueOf'',
                ''__proto__'', ''__defineGetter__'', ''__defineSetter__'',
                ''__lookupGetter__'', ''__lookupSetter__''])"

definition is_expanded :: "(string \<Rightarrow> bool) \<Rightarrow> expanded_map \<Rightarrow> string \<Rightarrow> bool" where
  "is_expanded inherited m k = (case m k of None \<Rightarrow> inherited k | Some b \<Rightarrow> b)"

definition toggleExpand ::
  "(string \<Rightarrow> bool) \<Rightarrow> string \<Rightarrow> expanded_map \<Rightarrow> expanded_map" where
  "toggleExpand inherited recordId prev =
     prev(recordId \<mapsto> \<not> is_expanded inherited prev recordId)"

definition shown_description ::
  "(string \<Rightarrow> bool) \<Rightarrow> expanded_map \<Rightarrow> string \<Rightarrow> string \<Rightarrow> string" where
  "shown_description inherited expandedRecords record_id description =
     (if is_expanded inherited expandedRecords record_id then description
      else truncateDescription description 200)"

definition expand_button ::
  "(string \<Rightarrow> bool) \<Rightarrow> expanded_map \<Rightarrow> string \<Rightarrow> string \<Rightarrow> string option" where
  "expand_button inherited expandedRecords record_id description =
     (if length description > 200
      then Some (if is_expanded inherited expandedRecords record_id
                 then ''Show less'' else ''Read more'')
      else None)"

section \<open>Values shared by the data-fetching components\<close>

text \<open>
  A rejected API call delivers an error object; \<open>err.message\<close> may be missing
  (\<open>None\<close>). A string-or-null value is truthy when it is a non-empty string, and
  \<open>a || b\<close> is \<open>a\<close> when \<open>a\<close> is truthy and \<open>b\<close> otherwise. A response field that holds no
  array reads as \<open>undefined\<close> (\<open>None\<close>), and \<open>response.xs || []\<close> is then the empty array;
  an array, empty or not, is truthy. In JSX a \<open>null\<close> renders as no text.
\<close>

record js_error =
  message :: "string option"

definition truthy :: "string option \<Rightarrow> bool" where
  "truthy v = (case v of None \<Rightarrow> False | Some s \<Rightarrow> s \<noteq> '''')"

definition or_else :: "string option \<Rightarrow> string \<Rightarrow> string" where
  "or_else v d = (case v of None \<Rightarrow> d | Some s \<Rightarrow> if s = '''' then d else s)"

definition jsx_text :: "string option \<Rightarrow> string" where
  "jsx_text v = (case v of None \<Rightarrow> [] | Some s \<Rightarrow> s)"

definition or_empty :: "'a list option \<Rightarrow> 'a list" where
  "or_empty v = (case v of None \<Rightarrow> [] | Some xs \<Rightarrow> xs)"

text \<open>
  The calls the components make on \<open>apiService\<close>, with their arguments. An endpoint is a
  function from the request to the outcome of the awaited promise: \<open>Inl err\<close> when it
  rejects, \<open>Inr response\<close> when it resolves. A handler returns the requests it issued and
  the alerts it raised, in order, next to the new component state.
\<close>

datatype request =
    GetPatients int nat string
  | GetPatient string
  | GetPatientRecords string
  | GetConsents "string option" "string option"
  | UpdateConsent string string
  | GetTransactions "string option" nat
  | GetStats

datatype effect = Request request | Alert string

text \<open>
  Every list/detail component owns \<open>loading\<close> and \<open>error\<close>; each extends this record
  with its data. A fetch starts with \<open>setLoading(true); setError(null)\<close>.
\<close>

record ui_state =
  loading :: bool
  error :: "string option"

definition fetch_begin :: "'a ui_state_scheme \<Rightarrow> 'a ui_state_scheme" where
  "fetch_begin s = s\<lparr>loading := True, error := None\<rparr>"

text \<open>
  What a component returns from its render: the loading box, the error box with its
  text, or the main layout. A list renders as one card per element, in order, or as the
  empty-state sentence.
\<close>

datatype 'a view = LoadingView string | ErrorView string | MainView 'a

datatype 'a listing = EmptyMessage string | Cards "'a list"

definition listing_of :: "string \<Rightarrow> 'a list \<Rightarrow> 'a listing" where
  "listing_of empty_text xs = (if length xs = 0 then EmptyMessage empty_text else Cards xs)"

section \<open>ConsentManagement and ConcentCard\<close>

record consent =
  consent_id :: string
  consent_patientId :: string
  purpose :: string
  status :: string
  walletAddress :: string
  createdAt :: string
  blockchainTxHash :: "string option"

record consent_state = ui_state +
  consents :: "consent list"
  filterStatus :: string
  showCreateForm :: bool
  form_patientId :: string
  form_purpose :: string

definition consent_initial :: consent_state where
  "consent_initial =
     \<lparr>loading = True, error = None, consents = [], filterStatus = ''all'',
      showCreateForm = False, form_patientId = '''', form_purpose = ''''\<rparr>"

text \<open>
  \<^verbatim>\<open>
  const fetchConsents = async () => {
    setLoading(true); setError(null);
    try {
      const response = await apiService.getConsents(null, filterStatus === 'all' ? null : filterStatus);
      setConsents(response.consents || []);
      setError(null);
    } catch (err) {
      setError(err.message || 'Failed to fetch consents');
      setConsents([]);
    } finally { setLoading(false); }
  };
  \<close>
\<close>

definition fetchConsents_settle ::
  "js_error + consent list option \<Rightarrow> consent_state \<Rightarrow> consent_state" where
  "fetchConsents_settle outcome s =
     (case outcome of
        Inr response_consents \<Rightarrow>
          s\<lparr>consents := or_empty response_consents, error := None, loading := False\<rparr>
      | Inl err \<Rightarrow>
          s\<lparr>error := Some (or_else (message err) ''Failed to fetch consents''),
            consents := [], loading := False\<rparr>)"

definition fetchConsents ::
  "(request \<Rightarrow> js_error + consent list option) \<Rightarrow> consent_state \<Rightarrow> effect list \<times> consent_state" where
  "fetchConsents getConsents s =
     (let req = GetConsents None (if filterStatus s = ''all'' then None else Some (filterStatus s))
      in ([Request req], fetchConsents_settle (getConsents req) (fetch_begin s)))"

text \<open>
  \<^verbatim>\<open>
  const handleUpdateStatus = async (consentId) => {
    try {
      await apiService.updateConsent(consentId, { status: "active" });
      fetchConsents();
    } catch (err) { alert('Failed to update consent: ' + err.message); }
  };
  \<close>
  \<open>UpdateConsent consentId st\<close> stands for \<open>updateConsent(consentId, {status: st})\<close>.
  In the alert, a missing message concatenates as the text \<open>undefined\<close>.
\<close>

definition handleUpdateStatus ::
  "(request \<Rightarrow> js_error + unit) \<Rightarrow> (request \<Rightarrow> js_error + consent list option) \<Rightarrow>
   string \<Rightarrow> consent_state \<Rightarrow> effect list \<times> consent_state" where
  "handleUpdateStatus updateConsent getConsents consentId s =
     (let req = UpdateConsent consentId ''active'' in
      case updateConsent req of
        Inr _ \<Rightarrow> (let (effs, s') = fetchConsents getConsents s in (Request req # effs, s'))
      | Inl err \<Rightarrow>
          ([Request req,
            Alert (''Failed to update consent: '' @
                   (case message err of None \<Rightarrow> ''undefined'' | Some m \<Rightarrow> m))], s))"

text \<open>
  ConsentManagement passes \<open>onUpdateStatus={handleUpdateStatus}\<close>; ConcentCard calls it with
  two arguments, and JavaScript drops the one that \<open>handleUpdateStatus\<close> has no parameter
  for.
  \<^verbatim>\<open>
  const handleApprove = () => {
      if (onUpdateStatus) { onUpdateStatus(consent.id, 'active'); }
  }
  \<close>
\<close>

definition onUpdateStatus ::
  "(request \<Rightarrow> js_error + unit) \<Rightarrow> (request \<Rightarrow> js_error + consent list option) \<Rightarrow>
   string \<Rightarrow> string \<Rightarrow> consent_state \<Rightarrow> effect list \<times> consent_state" where
  "onUpdateStatus updateConsent getConsents consentId passed_status =
     handleUpdateStatus updateConsent getConsents consentId"

definition handleApprove :: "(string \<Rightarrow> string \<Rightarrow> 'a) option \<Rightarrow> consent \<Rightarrow> 'a option" where
  "handleApprove callback c =
     (case callback of None \<Rightarrow> None | Some f \<Rightarrow> Some (f (consent_id c) ''active''))"

definition approve_shown :: "consent \<Rightarrow> bool" where
  "approve_shown c = (status c = ''pending'')"

text \<open>
  The render tests \<open>loading\<close>, then \<open>error\<close>. Of the main layout the model keeps the list
  of consent cards; the header button, the wallet warning, the create form and the
  filter buttons are left out.
\<close>

definition render_consent_management :: "consent_state \<Rightarrow> consent listing view" where
  "render_consent_management s =
     (if loading s then LoadingView ''Loading consents...''
      else if truthy (error s) then ErrorView (''Error: '' @ jsx_text (error s))
      else MainView (listing_of ''No consents found.'' (consents s)))"

section \<open>PatientList\<close>

text \<open>
  The server reports \<open>pagination\<close> with every page of patients; the component stores it
  with the two flags it computes (\<open>{...response.pagination, hasNextPage, hasPrevPage}\<close>).
  Patients are opaque to the list: the type \<open>'p\<close> is whatever the API sends.
\<close>

record page_info =
  page :: int
  totalPages :: int

record page_flags = page_info +
  hasNextPage :: bool
  hasPrevPage :: bool

record 'p patients_response =
  response_patients :: "'p list option"
  response_pagination :: page_info

record 'p patient_list_state = ui_state +
  patients :: "'p list"
  searchTerm :: string
  searchInput :: string
  currentPage :: int
  pagination :: "page_flags option"

definition patient_list_initial :: "'p patient_list_state" where
  "patient_list_initial =
     \<lparr>loading = True, error = None, patients = [], searchTerm = '''', searchInput = '''',
      currentPage = 1, pagination = None\<rparr>"

text \<open>
  \<^verbatim>\<open>
  const fetchPatients = async () => {
    setLoading(true); setError(null);
    try {
      const response = await apiService.getPatients(currentPage, 10, searchTerm);
      setPatients(response.patients || []);
      setCurrentPage(response.pagination.page);
      setPagination({
        ...response.pagination,
        hasNextPage: response.pagination.page < response.pagination.totalPages,
        hasPrevPage: response.pagination.page > 1
      });
      setError(null);
    } catch (err) {
      setError(err.message || 'Failed to fetch patients');
      setPatients([]);
    } finally { setLoading(false); }
  };
  \<close>
\<close>

definition fetchPatients_settle ::
  "js_error + 'p patients_response \<Rightarrow> 'p patient_list_state \<Rightarrow> 'p patient_list_state" where
  "fetchPatients_settle outcome s =
     (case outcome of
        Inr response \<Rightarrow>
          s\<lparr>patients := or_empty (response_patients response),
            currentPage := page (response_pagination response),
            pagination := Some
              \<lparr>page = page (response_pagination response),
               totalPages = totalPages (response_pagination response),
               hasNextPage = page (response_pagination response)
                               < totalPages (response_pagination response),
               hasPrevPage = page (response_pagination response) > 1\<rparr>,
            error := None, loading := False\<rparr>
      | Inl err \<Rightarrow>
          s\<lparr>error := Some (or_else (message err) ''Failed to fetch patients''),
            patients := [], loading := False\<rparr>)"

definition fetchPatients ::
  "(request \<Rightarrow> js_error + 'p patients_response) \<Rightarrow> 'p patient_list_state \<Rightarrow>
   effect list \<times> 'p patient_list_state" where
  "fetchPatients getPatients s =
     (let req = GetPatients (currentPage s) 10 (searchTerm s)
      in ([Request req], fetchPatients_settle (getPatients req) (fetch_begin s)))"

text \<open>
  \<^verbatim>\<open>
  const handleSearch = (e) => { setSearchInput(e.target.value); };
  const handlePreviousPage = () => {
    if (pagination && pagination.hasPrevPage) { setCurrentPage((prev) => prev - 1); } };
  const handleNextPage = () => {
    if (pagination && pagination.hasNextPage) { setCurrentPage((prev) => prev + 1); } };
  \<close>
\<close>

definition handleSearch :: "string \<Rightarrow> 'p patient_list_state \<Rightarrow> 'p patient_list_state" where
  "handleSearch target_value s = s\<lparr>searchInput := target_value\<rparr>"

definition handlePreviousPage :: "'p patient_list_state \<Rightarrow> 'p patient_list_state" where
  "handlePreviousPage s =
     (case pagination s of
        None \<Rightarrow> s
      | Some pg \<Rightarrow> if hasPrevPage pg then s\<lparr>currentPage := currentPage s - 1\<rparr> else s)"

definition handleNextPage :: "'p patient_list_state \<Rightarrow> 'p patient_list_state" where
  "handleNextPage s =
     (case pagination s of
        None \<Rightarrow> s
      | Some pg \<Rightarrow> if hasNextPage pg then s\<lparr>currentPage := currentPage s + 1\<rparr> else s)"

record pagination_controls =
  previous_disabled :: bool
  shown_page :: int
  shown_totalPages :: int
  next_disabled :: bool

record 'p patient_list_main =
  search_value :: string
  patient_cards :: "'p listing"
  controls :: "pagination_controls option"

definition render_patient_list :: "'p patient_list_state \<Rightarrow> 'p patient_list_main view" where
  "render_patient_list s =
     (if loading s then LoadingView ''Loading patients...''
      else if truthy (error s) then ErrorView (''Error: '' @ jsx_text (error s))
      else MainView
        \<lparr>search_value = searchInput s,
         patient_cards = listing_of ''No patients found.'' (patients s),
         controls =
           (case pagination s of
              None \<Rightarrow> None
            | Some pg \<Rightarrow> Some
                \<lparr>previous_disabled = (currentPage s = 1),
                 shown_page = currentPage s,
                 shown_totalPages = totalPages pg,
                 next_disabled = (currentPage s = totalPages pg)\<rparr>)\<rparr>)"

subsection \<open>The two effects of PatientList and the debounce timer\<close>

text \<open>
  \<^verbatim>\<open>
  useEffect(() => { fetchPatients(); }, [currentPage, searchTerm]);

  useEffect(() => {
    const timer = setTimeout(() => {
      setSearchTerm(searchInput);
      setCurrentPage(1);
    }, 500);
    return () => clearTimeout(timer);
  }, [searchInput]);
  \<close>
  The mounted component lives in a browser with a clock (milliseconds since mount) and
  at most one pending timeout of the debounce effect, kept as the time it was set and
  the \<open>searchInput\<close> its callback closed over. Time passes in \<open>Elapse\<close> events; the
  timeout's callback runs in the first one that brings the clock to 500 ms or more after
  the time the timeout was set. An \<open>Input\<close> event is the \<open>onChange\<close> of the search box:
  when the value differs from the state, the component renders again, the cleanup of
  the debounce effect clears the pending timeout and the effect sets a new one; when
  the value is the same, React keeps the state and runs no effect. Whenever
  \<open>currentPage\<close> or \<open>searchTerm\<close> has changed, the first effect starts a fetch, whose
  outcome arrives later as a \<open>FetchSettled\<close> event.
\<close>

record 'p browser =
  component :: "'p patient_list_state"
  clock :: nat
  timer :: "(nat \<times> string) option"

datatype 'p event =
    Input string
  | Elapse nat
  | ClickPrevious
  | ClickNext
  | FetchSettled "js_error + 'p patients_response"

definition debounce_delay :: nat where
  "debounce_delay = 500"

definition timer_callback :: "string \<Rightarrow> 'p patient_list_state \<Rightarrow> 'p patient_list_state" where
  "timer_callback captured_searchInput s = s\<lparr>searchTerm := captured_searchInput, currentPage := 1\<rparr>"

definition fetch_effect ::
  "'p patient_list_state \<Rightarrow> 'p patient_list_state \<Rightarrow> 'p patient_list_state" where
  "fetch_effect before after =
     (if currentPage after \<noteq> currentPage before \<or> searchTerm after \<noteq> searchTerm before
      then fetch_begin after else after)"

definition mount :: "'p browser" where
  "mount = \<lparr>component = fetch_begin patient_list_initial, clock = 0, timer = Some (0, '''')\<rparr>"

fun step :: "'p event \<Rightarrow> 'p browser \<Rightarrow> 'p browser" where
  "step (Input v) w =
     (if v = searchInput (component w) then w
      else w\<lparr>component := handleSearch v (component w), timer := Some (clock w, v)\<rparr>)"
| "step (Elapse d) w =
     (case timer w of
        None \<Rightarrow> w\<lparr>clock := clock w + d\<rparr>
      | Some (set_at, captured) \<Rightarrow>
          if set_at + debounce_delay \<le> clock w + d
          then w\<lparr>component := fetch_effect (component w) (timer_callback captured (component w)),
                 clock := clock w + d, timer := None\<rparr>
          else w\<lparr>clock := clock w + d\<rparr>)"
| "step ClickPrevious w =
     w\<lparr>component := fetch_effect (component w) (handlePreviousPage (component w))\<rparr>"
| "step ClickNext w =
     w\<lparr>component := fetch_effect (component w) (handleNextPage (component w))\<rparr>"
| "step (FetchSettled outcome) w =
     w\<lparr>component := fetch_effect (component w) (fetchPatients_settle outcome (component w))\<rparr>"

fun run :: "'p event list \<Rightarrow> 'p browser \<Rightarrow> 'p browser" where
  "run [] w = w"
| "run (e # es) w = run es (step e w)"

fun elapsed :: "'p event list \<Rightarrow> nat" where
  "elapsed [] = 0"
| "elapsed (Elapse d # es) = d + elapsed es"
| "elapsed (_ # es) = elapsed es"

section \<open>PatientDetail\<close>

text \<open>
  \<^verbatim>\<open>
  const fetchPatientData = useCallback(async () => {
    setLoading(true); setError(null);
    try {
      const [patientResponse, recordsResponse] = await Promise.all([
        apiService.getPatient(patientId),
        apiService.getPatientRecords(patientId)
      ]);
      setPatient(patientResponse);
      // Update records state (handle both wrapped and direct array responses)
      setRecords(recordsResponse.records || []);
      setError(null);
    } catch (err) {
      setError(err.message || 'Failed to fetch patient data');
      setPatient(null);
      setRecords([]);
    } finally { setLoading(false); }
  }, [patientId]);
  \<close>
  The comment names two shapes of the records response: an object whose \<open>records\<close> field
  holds the array (\<open>Wrapped\<close>, with \<open>None\<close> when the field is missing), and the array
  itself (\<open>DirectArray\<close>). An array has no property \<open>records\<close>, so
  \<open>recordsResponse.records\<close> is \<open>undefined\<close> on it.

  \<open>Promise.all\<close> issues both calls, resolves with both values when both resolve, and
  rejects with the error of the call that rejects first; when both reject, which one is
  first is decided by the network, here by the flag \<open>records_first\<close>.
\<close>

datatype 'r records_response = Wrapped "'r list option" | DirectArray "'r list"

definition records_field :: "'r records_response \<Rightarrow> 'r list option" where
  "records_field response = (case response of Wrapped v \<Rightarrow> v | DirectArray xs \<Rightarrow> None)"

definition promise_all2 ::
  "bool \<Rightarrow> js_error + 'a \<Rightarrow> js_error + 'b \<Rightarrow> js_error + 'a \<times> 'b" where
  "promise_all2 second_first r1 r2 =
     (case r1 of
        Inr a \<Rightarrow> (case r2 of Inr b \<Rightarrow> Inr (a, b) | Inl e2 \<Rightarrow> Inl e2)
      | Inl e1 \<Rightarrow> (case r2 of Inr b \<Rightarrow> Inl e1 | Inl e2 \<Rightarrow> Inl (if second_first then e2 else e1)))"

record ('p, 'r) patient_detail_state = ui_state +
  patient :: "'p option"
  records :: "'r list"

definition patient_detail_initial :: "('p, 'r) patient_detail_state" where
  "patient_detail_initial = \<lparr>loading = True, error = None, patient = None, records = []\<rparr>"

definition fetchPatientData_settle ::
  "js_error + 'p option \<times> 'r records_response \<Rightarrow> ('p, 'r) patient_detail_state \<Rightarrow>
   ('p, 'r) patient_detail_state" where
  "fetchPatientData_settle outcome s =
     (case outcome of
        Inr (patientResponse, recordsResponse) \<Rightarrow>
          s\<lparr>patient := patientResponse,
            records := or_empty (records_field recordsResponse),
            error := None, loading := False\<rparr>
      | Inl err \<Rightarrow>
          s\<lparr>error := Some (or_else (message err) ''Failed to fetch patient data''),
            patient := None, records := [], loading := False\<rparr>)"

definition fetchPatientData ::
  "(request \<Rightarrow> js_error + 'p option) \<Rightarrow> (request \<Rightarrow> js_error + 'r records_response) \<Rightarrow>
   bool \<Rightarrow> string \<Rightarrow> ('p, 'r) patient_detail_state \<Rightarrow>
   effect list \<times> ('p, 'r) patient_detail_state" where
  "fetchPatientData getPatient getPatientRecords records_first patientId s =
     (let req1 = GetPatient patientId; req2 = GetPatientRecords patientId
      in ([Request req1, Request req2],
          fetchPatientData_settle
            (promise_all2 records_first (getPatient req1) (getPatientRecords req2))
            (fetch_begin s)))"

text \<open>
  \<^verbatim>\<open>
  useEffect(() => { if (patientId) { fetchPatientData(); } }, [patientId, fetchPatientData]);
  \<close>
\<close>

definition patient_detail_effect ::
  "(request \<Rightarrow> js_error + 'p option) \<Rightarrow> (request \<Rightarrow> js_error + 'r records_response) \<Rightarrow>
   bool \<Rightarrow> string option \<Rightarrow> ('p, 'r) patient_detail_state \<Rightarrow>
   effect list \<times> ('p, 'r) patient_detail_state" where
  "patient_detail_effect getPatient getPatientRecords records_first patientId s =
     (case patientId of
        None \<Rightarrow> ([], s)
      | Some pid \<Rightarrow>
          if pid = '''' then ([], s)
          else fetchPatientData getPatient getPatientRecords records_first pid s)"

definition render_patient_detail ::
  "('p, 'r) patient_detail_state \<Rightarrow> ('p \<times> nat \<times> 'r listing) view" where
  "render_patient_detail s =
     (if loading s then LoadingView ''Loading patient details...''
      else case patient s of
        None \<Rightarrow> ErrorView (''Error loading patient: '' @ or_else (error s) ''Patient not found'')
      | Some p \<Rightarrow>
          if truthy (error s)
          then ErrorView (''Error loading patient: '' @ or_else (error s) ''Patient not found'')
          else MainView
            (p, length (records s),
             listing_of ''No medical records found for this patient.'' (records s)))"

section \<open>TransactionHistory\<close>

text \<open>
  \<^verbatim>\<open>
  const fetchTransactions = async () => {
    setLoading(true); setError(null);
    try {
      const response = await apiService.getTransactions(null, 20);
      setTransactions(response.transactions || []);
      setError(null);
    } catch (err) {
      setError(err.message || 'Failed to fetch transactions');
      setTransactions([]);
    } finally { setLoading(false); }
  };

  useEffect(() => {
    if (account) { fetchTransactions(); }
    else { setTransactions([]); setLoading(false); }
  }, [account]);
  \<close>
\<close>

record 't transaction_state = ui_state +
  transactions :: "'t list"

definition transaction_initial :: "'t transaction_state" where
  "transaction_initial = \<lparr>loading = True, error = None, transactions = []\<rparr>"

definition fetchTransactions_settle ::
  "js_error + 't list option \<Rightarrow> 't transaction_state \<Rightarrow> 't transaction_state" where
  "fetchTransactions_settle outcome s =
     (case outcome of
        Inr response_transactions \<Rightarrow>
          s\<lparr>transactions := or_empty response_transactions, error := None, loading := False\<rparr>
      | Inl err \<Rightarrow>
          s\<lparr>error := Some (or_else (message err) ''Failed to fetch transactions''),
            transactions := [], loading := False\<rparr>)"

definition fetchTransactions ::
  "(request \<Rightarrow> js_error + 't list option) \<Rightarrow> 't transaction_state \<Rightarrow>
   effect list \<times> 't transaction_state" where
  "fetchTransactions getTransactions s =
     (let req = GetTransactions None 20
      in ([Request req], fetchTransactions_settle (getTransactions req) (fetch_begin s)))"

definition account_effect ::
  "(request \<Rightarrow> js_error + 't list option) \<Rightarrow> string option \<Rightarrow> 't transaction_state \<Rightarrow>
   effect list \<times> 't transaction_state" where
  "account_effect getTransactions account s =
     (if truthy account then fetchTransactions getTransactions s
      else ([], s\<lparr>transactions := [], loading := False\<rparr>))"

record 't transaction_history_main =
  wallet_filter :: "string option"
  transaction_cards :: "'t listing"

definition render_transaction_history ::
  "string option \<Rightarrow> 't transaction_state \<Rightarrow> 't transaction_history_main view" where
  "render_transaction_history account s =
     (if loading s then LoadingView ''Loading transactions...''
      else if truthy (error s) then ErrorView (''Error: '' @ jsx_text (error s))
      else MainView
        \<lparr>wallet_filter =
           (if truthy account then Some (''Filtering for: '' @ formatWalletAddress account)
            else None),
         transaction_cards =
           listing_of ''No transactions found for this wallet address.'' (transactions s)\<rparr>)"

definition without_wallet_filter ::
  "'t transaction_history_main view \<Rightarrow> 't transaction_history_main view" where
  "without_wallet_filter v =
     (case v of MainView m \<Rightarrow> MainView (m\<lparr>wallet_filter := None\<rparr>) | _ \<Rightarrow> v)"

section \<open>StatsDashboard\<close>

text \<open>
  \<^verbatim>\<open>
  const fetchStats = async () => {
    setLoading(true); setError(null);
    try {
      const response = await apiService.getStats();
      setStats(response || null);
      setError(null);
    } catch (err) {
      setError(err.message || 'Failed to fetch statistics');
      setStats(null);
    } finally { setLoading(false); }
  };
  \<close>
\<close>

record stats_counts =
  totalPatients :: int
  totalRecords :: int
  totalConsents :: int
  activeConsents :: int
  pendingConsents :: int
  totalTransactions :: int

record stats_state = ui_state +
  stats :: "stats_counts option"

definition stats_initial :: stats_state where
  "stats_initial = \<lparr>loading = True, error = None, stats = None\<rparr>"

definition fetchStats_settle :: "js_error + stats_counts option \<Rightarrow> stats_state \<Rightarrow> stats_state" where
  "fetchStats_settle outcome s =
     (case outcome of
        Inr response \<Rightarrow> s\<lparr>stats := response, error := None, loading := False\<rparr>
      | Inl err \<Rightarrow>
          s\<lparr>error := Some (or_else (message err) ''Failed to fetch statistics''),
            stats := None, loading := False\<rparr>)"

definition fetchStats ::
  "(request \<Rightarrow> js_error + stats_counts option) \<Rightarrow> stats_state \<Rightarrow> effect list \<times> stats_state" where
  "fetchStats getStats s =
     ([Request GetStats], fetchStats_settle (getStats GetStats) (fetch_begin s))"

record stat_card =
  label :: string
  card_value :: int
  description :: string
  isPrimary :: bool

definition getStatCards :: "stats_state \<Rightarrow> stat_card list" where
  "getStatCards s =
     (case stats s of
        None \<Rightarrow> []
      | Some st \<Rightarrow>
          [\<lparr>label = ''Total Patients'', card_value = totalPatients st,
            description = ''Registered patients in the system'', isPrimary = True\<rparr>,
           \<lparr>label = ''Total Records'', card_value = totalRecords st,
            description = ''Medical records stored'', isPrimary = False\<rparr>,
           \<lparr>label = ''Total Consents'', card_value = totalConsents st,
            description = ''Consent forms collected'', isPrimary = False\<rparr>,
           \<lparr>label = ''Active Consents'', card_value = activeConsents st,
            description = ''Currently active consents'', isPrimary = False\<rparr>,
           \<lparr>label = ''Pending Consents'', card_value = pendingConsents st,
            description = ''Awaiting approval'', isPrimary = False\<rparr>,
           \<lparr>label = ''Total Transactions'', card_value = totalTransactions st,
            description = ''Blockchain transactions'', isPrimary = False\<rparr>])"

definition render_stats_dashboard :: "stats_state \<Rightarrow> stat_card list view" where
  "render_stats_dashboard s =
     (if loading s then LoadingView ''Loading statistics...''
      else if truthy (error s) \<or> stats s = None
      then ErrorView (''Error loading statistics: '' @ or_else (error s) ''No data available'')
      else MainView (getStatCards s))"

section \<open>Observations on effects and outcomes\<close>

text \<open>
  \<open>is_update_request\<close> picks the \<open>updateConsent\<close> calls out of a handler's effects;
  \<open>rejected\<close> says that an awaited call threw.
\<close>

definition is_update_request :: "effect \<Rightarrow> bool" where
  "is_update_request e = (case e of Request (UpdateConsent _ _) \<Rightarrow> True | _ \<Rightarrow> False)"

definition rejected :: "'e + 'a \<Rightarrow> bool" where
  "rejected outcome = (case outcome of Inl _ \<Rightarrow> True | Inr _ \<Rightarrow> False)"

text \<open>\<open>no_Input\<close> holds of a trace in which the search box is not edited.\<close>

fun no_Input :: "'p event list \<Rightarrow> bool" where
  "no_Input [] = True"
| "no_Input (Input v # es) = False"
| "no_Input (_ # es) = no_Input es"

text \<open>
  \<open>fires e w\<close> says that event \<open>e\<close> runs the pending timeout's callback in \<open>w\<close>: time
  passes and reaches 500 ms after the time the timeout was set.
\<close>

definition fires :: "'p event \<Rightarrow> 'p browser \<Rightarrow> bool" where
  "fires e w =
     (case e of
        Elapse d \<Rightarrow>
          (case timer w of
             None \<Rightarrow> False
           | Some (set_at, captured) \<Rightarrow> set_at + debounce_delay \<le> clock w + d)
      | _ \<Rightarrow> False)"

section \<open>Properties of the formatting utilities\<close>

lemma slice_index_nonneg: "0 \<le> i \<Longrightarrow> slice_index len i = min (nat i) len"
  by (simp add: slice_index_def)

lemma slice2_from_zero: "0 \<le> n \<Longrightarrow> slice2 s 0 n = take (nat n) s"
  by (simp add: slice2_def slice_index_def min_def)

lemma slice1_last6: "slice1 s (- 6) = drop (length s - 6) s"
proof -
  have "nat (max (int (length s) - 6) 0) = length s - 6" by simp
  then show ?thesis by (simp add: slice1_def slice_index_def)
qed

text \<open>
  C3, as amended. For every string \<open>text\<close> and every non-negative \<open>maxLength\<close>:
  a text of at most \<open>maxLength\<close> characters is returned unchanged, and a longer one
  becomes its first \<open>maxLength\<close> characters followed by \<open>...\<close>.
\<close>

theorem truncateDescription_nonneg:
  "0 \<le> maxLength \<Longrightarrow>
   truncateDescription text maxLength =
     (if int (length text) \<le> maxLength then text else take (nat maxLength) text @ ''...'')"
  by (simp add: truncateDescription_def slice2_from_zero)

theorem truncateDescription_nonneg_witness:
  "(0::int) \<le> 4 \<and> truncateDescription ''abcdef'' 4 = ''abcd...'' \<and>
   truncateDescription ''abc'' 4 = ''abc''"
  using truncateDescription_nonneg [of 4 "''abcdef''"] truncateDescription_nonneg [of 4 "''abc''"]
  by simp

text \<open>
  C3 as stated covers every \<open>maxLength\<close>. With a negative one the guard is false for
  every text, and \<open>slice(0, maxLength)\<close> counts the end from the back: the result keeps
  all but the last \<open>-maxLength\<close> characters, which is not "the first \<open>maxLength\<close>
  characters" under any reading.
\<close>

theorem truncateDescription_negative_counterexample:
  "\<not> int (length ''abcdef'') \<le> - 2 \<and>
   truncateDescription ''abcdef'' (- 2) = ''abcd...'' \<and>
   truncateDescription ''abcdef'' (- 2) \<noteq> take (nat (- 2)) ''abcdef'' @ ''...''"
  by (simp add: truncateDescription_def slice2_def slice_index_def)

text \<open>
  C4, as amended. For every non-empty address the result is the first 8 characters,
  then \<open>...\<close>, then the last 6 characters (all of the address where it is shorter);
  the result is no longer than the address exactly when the address has at least 17
  characters.
\<close>

theorem formatWalletAddress_head_tail:
  "a \<noteq> '''' \<Longrightarrow>
   formatWalletAddress (Some a) = take 8 a @ ''...'' @ drop (length a - 6) a \<and>
   (length (formatWalletAddress (Some a)) \<le> length a \<longleftrightarrow> 17 \<le> length a)"
  by (auto simp add: formatWalletAddress_def slice2_from_zero slice1_last6 min_def)

theorem formatWalletAddress_head_tail_witness:
  "''0x742d35Cc6634C0532925a3b844Bc9e7595f0bEb'' \<noteq> '''' \<and>
   formatWalletAddress (Some ''0x742d35Cc6634C0532925a3b844Bc9e7595f0bEb'') = ''0x742d35...5f0bEb'' \<and>
   length (formatWalletAddress (Some ''0x742d35Cc6634C0532925a3b844Bc9e7595f0bEb''))
     \<le> length ''0x742d35Cc6634C0532925a3b844Bc9e7595f0bEb''"
proof -
  have h: "''0x742d35Cc6634C0532925a3b844Bc9e7595f0bEb'' \<noteq> ''''" by simp
  have "(17::nat) \<le> length ''0x742d35Cc6634C0532925a3b844Bc9e7595f0bEb''" by simp
  with formatWalletAddress_head_tail [OF h] show ?thesis by simp
qed

text \<open>
  C4 as stated says the result is never longer than the address. A short address is
  shown whole on both sides of the dots: five characters become thirteen.
\<close>

theorem formatWalletAddress_longer_counterexample:
  "''0xabc'' \<noteq> '''' \<and>
   formatWalletAddress (Some ''0xabc'') = ''0xabc...0xabc'' \<and>
   \<not> length (formatWalletAddress (Some ''0xabc'')) \<le> length ''0xabc''"
  by (simp add: formatWalletAddress_def slice2_def slice1_def slice_index_def)

text \<open>
  C8 at the documented example. On a host in UTC \<open>formatDate("1985-03-15")\<close> is
  \<open>Mar 15, 1985\<close>, as the function's documentation says; on a host five hours behind
  UTC the same call gives \<open>Mar 14, 1985\<close>: the string is read as midnight UTC and
  rendered in the host's zone, where it is still the evening before.
\<close>

theorem formatDate_depends_on_host_zone:
  "parse_date ''1985-03-15'' = Some 479692800000 \<and>
   formatDate (\<lambda>t. 0) ''1985-03-15'' = Some ''Mar 15, 1985'' \<and>
   formatDate (\<lambda>t. - 300) ''1985-03-15'' = Some ''Mar 14, 1985''"
  by code_simp

section \<open>The expand/collapse map\<close>

text \<open>
  C5. Whatever names the prototype supplies, \<open>toggleExpand r\<close> stores at \<open>r\<close> the
  negation of what \<open>r\<close> read as before, so that the reading of \<open>r\<close> flips; it leaves the
  value and the reading of every other key as they were; and applied twice it gives a
  map in which every record id reads as expanded or collapsed exactly as in the
  original map.
\<close>

theorem toggleExpand_local_involution:
  "toggleExpand inherited r m r = Some (\<not> is_expanded inherited m r) \<and>
   is_expanded inherited (toggleExpand inherited r m) r = (\<not> is_expanded inherited m r) \<and>
   (\<forall>k. k \<noteq> r \<longrightarrow>
      toggleExpand inherited r m k = m k \<and>
      is_expanded inherited (toggleExpand inherited r m) k = is_expanded inherited m k) \<and>
   (\<forall>k. is_expanded inherited (toggleExpand inherited r (toggleExpand inherited r m)) k
         = is_expanded inherited m k)"
  by (simp add: toggleExpand_def is_expanded_def)

theorem toggleExpand_local_involution_witness:
  "''rec-2'' \<noteq> ''rec-1'' \<and>
   toggleExpand object_prototype_names ''rec-1'' [''rec-2'' \<mapsto> True] ''rec-1'' = Some True \<and>
   toggleExpand object_prototype_names ''rec-1'' [''rec-2'' \<mapsto> True] ''rec-2'' = Some True \<and>
   is_expanded object_prototype_names
     (toggleExpand object_prototype_names ''rec-1''
        (toggleExpand object_prototype_names ''rec-1'' [''rec-2'' \<mapsto> True])) ''rec-1''
     = False \<and>
   ''rec-2'' \<noteq> ''constructor'' \<and>
   is_expanded object_prototype_names [''rec-2'' \<mapsto> True] ''constructor'' = True \<and>
   toggleExpand object_prototype_names ''constructor'' [''rec-2'' \<mapsto> True] ''constructor''
     = Some False \<and>
   toggleExpand object_prototype_names ''constructor'' [''rec-2'' \<mapsto> True] ''rec-2''
     = Some True \<and>
   is_expanded object_prototype_names
     (toggleExpand object_prototype_names ''constructor''
        (toggleExpand object_prototype_names ''constructor'' [''rec-2'' \<mapsto> True]))
     ''constructor''
     = True"
proof -
  have ordinary: "\<not> is_expanded object_prototype_names [''rec-2'' \<mapsto> True] ''rec-1''"
    by (simp add: is_expanded_def object_prototype_names_def)
  have named: "is_expanded object_prototype_names [''rec-2'' \<mapsto> True] ''constructor''"
    by (simp add: is_expanded_def object_prototype_names_def)
  have d1: "''rec-2'' \<noteq> ''rec-1''" and d2: "''rec-2'' \<noteq> ''constructor''"
    by simp_all
  note t1 = toggleExpand_local_involution
    [of object_prototype_names "''rec-1''" "[''rec-2'' \<mapsto> True]"]
  note t2 = toggleExpand_local_involution
    [of object_prototype_names "''constructor''" "[''rec-2'' \<mapsto> True]"]
  from t1 ordinary have a1:
    "toggleExpand object_prototype_names ''rec-1'' [''rec-2'' \<mapsto> True] ''rec-1'' = Some True"
    by simp
  from t1 d1 have a2:
    "toggleExpand object_prototype_names ''rec-1'' [''rec-2'' \<mapsto> True] ''rec-2'' = Some True"
    by simp
  from t1 ordinary have a3:
    "is_expanded object_prototype_names
       (toggleExpand object_prototype_names ''rec-1''
          (toggleExpand object_prototype_names ''rec-1'' [''rec-2'' \<mapsto> True])) ''rec-1''
     = False"
    by simp
  from t2 named have b1:
    "toggleExpand object_prototype_names ''constructor'' [''rec-2'' \<mapsto> True] ''constructor''
     = Some False"
    by simp
  from t2 d2 have b2:
    "toggleExpand object_prototype_names ''constructor'' [''rec-2'' \<mapsto> True] ''rec-2''
     = Some True"
    by simp
  from t2 named have b3:
    "is_expanded object_prototype_names
       (toggleExpand object_prototype_names ''constructor''
          (toggleExpand object_prototype_names ''constructor'' [''rec-2'' \<mapsto> True]))
       ''constructor''
     = True"
    by simp
  from d1 a1 a2 a3 d2 named b1 b2 b3 show ?thesis by simp
qed

section \<open>PatientList: pagination flags\<close>

text \<open>
  C1. When the call of \<open>getPatients\<close> resolves, \<open>currentPage\<close> becomes the page the server
  reported, \<open>hasNextPage\<close> is stored as "reported page < reported totalPages" and
  \<open>hasPrevPage\<close> as "reported page > 1".
\<close>

theorem fetchPatients_pagination_flags:
  "getPatients (GetPatients (currentPage s) 10 (searchTerm s)) = Inr response \<Longrightarrow>
   (let s' = snd (fetchPatients getPatients s); reported = response_pagination response
    in currentPage s' = page reported \<and>
       map_option hasNextPage (pagination s') = Some (page reported < totalPages reported) \<and>
       map_option hasPrevPage (pagination s') = Some (page reported > 1) \<and>
       map_option totalPages (pagination s') = Some (totalPages reported))"
  by (simp add: fetchPatients_def fetchPatients_settle_def Let_def)

theorem fetchPatients_pagination_flags_witness:
  "(\<lambda>req. Inr \<lparr>response_patients = Some [''p1'', ''p2''],
               response_pagination = \<lparr>page = 2, totalPages = 3\<rparr>\<rparr>)
     (GetPatients (currentPage (patient_list_initial :: string patient_list_state)) 10
        (searchTerm (patient_list_initial :: string patient_list_state)))
   = (Inr \<lparr>response_patients = Some [''p1'', ''p2''],
           response_pagination = \<lparr>page = 2, totalPages = 3\<rparr>\<rparr> :: js_error + string patients_response) \<and>
   currentPage (snd (fetchPatients
      (\<lambda>req. Inr \<lparr>response_patients = Some [''p1'', ''p2''],
                   response_pagination = \<lparr>page = 2, totalPages = 3\<rparr>\<rparr>)
      (patient_list_initial :: string patient_list_state))) = 2 \<and>
   map_option hasNextPage (pagination (snd (fetchPatients
      (\<lambda>req. Inr \<lparr>response_patients = Some [''p1'', ''p2''],
                   response_pagination = \<lparr>page = 2, totalPages = 3\<rparr>\<rparr>)
      (patient_list_initial :: string patient_list_state)))) = Some True \<and>
   map_option hasPrevPage (pagination (snd (fetchPatients
      (\<lambda>req. Inr \<lparr>response_patients = Some [''p1'', ''p2''],
                   response_pagination = \<lparr>page = 2, totalPages = 3\<rparr>\<rparr>)
      (patient_list_initial :: string patient_list_state)))) = Some True"
  using fetchPatients_pagination_flags
    [of "\<lambda>req. Inr \<lparr>response_patients = Some [''p1'', ''p2''],
                     response_pagination = \<lparr>page = 2, totalPages = 3\<rparr>\<rparr>"
        "patient_list_initial :: string patient_list_state"
        "\<lparr>response_patients = Some [''p1'', ''p2''],
          response_pagination = \<lparr>page = 2, totalPages = 3\<rparr>\<rparr>"]
  by (simp add: Let_def)

section \<open>ConsentManagement: approving a consent\<close>

text \<open>
  C9. Whatever status the card's callback passes, the only \<open>updateConsent\<close> call the
  handler issues is the one for that consent id with the body \<open>{status: "active"}\<close>;
  the passed status has no influence on the handler at all, and the card's approve
  button runs the handler with the consent's own id.
\<close>

theorem approve_requests_activation_only:
  "filter is_update_request (fst (onUpdateStatus updateConsent getConsents consentId passed_status s))
     = [Request (UpdateConsent consentId ''active'')] \<and>
   onUpdateStatus updateConsent getConsents consentId passed_status s
     = onUpdateStatus updateConsent getConsents consentId other_status s \<and>
   handleApprove (Some (onUpdateStatus updateConsent getConsents)) c
     = Some (handleUpdateStatus updateConsent getConsents (consent_id c))"
  by (simp add: onUpdateStatus_def handleUpdateStatus_def fetchConsents_def handleApprove_def
      is_update_request_def Let_def split: sum.splits)

section \<open>Failed fetches\<close>

text \<open>
  A stored message is never empty: \<open>err.message || fallback\<close> is truthy, and reads back
  as itself.
\<close>

lemma or_else_truthy: "d \<noteq> '''' \<Longrightarrow> truthy (Some (or_else v d))"
  by (simp add: truthy_def or_else_def split: option.splits)

lemma or_else_Some_self: "d \<noteq> '''' \<Longrightarrow> or_else (Some (or_else v d)) d' = or_else v d"
  by (simp add: or_else_def split: option.splits)

text \<open>
  C6. In each of the five components, when the awaited API call rejects with \<open>err\<close>, the
  fetch stores \<open>err.message\<close>, or the component's fixed fallback text when the message is
  missing or empty, empties the data it owns (lists to \<open>[]\<close>, the patient and the
  statistics to \<open>null\<close>), leaves \<open>loading\<close> false, and the next render is the error box
  with the stored message. In PatientDetail the two calls are awaited together: the
  fetch fails exactly when one of them rejects, with the error of one that rejected.
  PatientList empties its patients; the page cursor and the pagination record of the
  last successful fetch stay as they were, out of sight behind the error box.
\<close>

theorem fetch_failure_policy:
  "(getConsents (GetConsents None (if filterStatus cs = ''all'' then None else Some (filterStatus cs)))
      = Inl err \<longrightarrow>
    (let s' = snd (fetchConsents getConsents cs);
         msg = or_else (message err) ''Failed to fetch consents''
     in error s' = Some msg \<and> consents s' = [] \<and> \<not> loading s' \<and>
        render_consent_management s' = ErrorView (''Error: '' @ msg))) \<and>
   (getPatients (GetPatients (currentPage ps) 10 (searchTerm ps)) = Inl err \<longrightarrow>
    (let s' = snd (fetchPatients getPatients ps);
         msg = or_else (message err) ''Failed to fetch patients''
     in error s' = Some msg \<and> patients s' = [] \<and> \<not> loading s' \<and>
        pagination s' = pagination ps \<and> currentPage s' = currentPage ps \<and>
        render_patient_list s' = ErrorView (''Error: '' @ msg))) \<and>
   (rejected (promise_all2 records_first (getPatient (GetPatient pid))
                (getPatientRecords (GetPatientRecords pid)))
      = (rejected (getPatient (GetPatient pid)) \<or>
         rejected (getPatientRecords (GetPatientRecords pid)))) \<and>
   (promise_all2 records_first (getPatient (GetPatient pid))
       (getPatientRecords (GetPatientRecords pid)) = Inl err \<longrightarrow>
    (getPatient (GetPatient pid) = Inl err \<or> getPatientRecords (GetPatientRecords pid) = Inl err) \<and>
    (let s' = snd (fetchPatientData getPatient getPatientRecords records_first pid ds);
         msg = or_else (message err) ''Failed to fetch patient data''
     in error s' = Some msg \<and> patient s' = None \<and> records s' = [] \<and> \<not> loading s' \<and>
        render_patient_detail s' = ErrorView (''Error loading patient: '' @ msg))) \<and>
   (getTransactions (GetTransactions None 20) = Inl err \<longrightarrow>
    (let s' = snd (fetchTransactions getTransactions ts);
         msg = or_else (message err) ''Failed to fetch transactions''
     in error s' = Some msg \<and> transactions s' = [] \<and> \<not> loading s' \<and>
        render_transaction_history account s' = ErrorView (''Error: '' @ msg))) \<and>
   (getStats GetStats = Inl err \<longrightarrow>
    (let s' = snd (fetchStats getStats ss);
         msg = or_else (message err) ''Failed to fetch statistics''
     in error s' = Some msg \<and> stats s' = None \<and> \<not> loading s' \<and>
        render_stats_dashboard s' = ErrorView (''Error loading statistics: '' @ msg)))"
proof (intro conjI impI)
  assume "getConsents (GetConsents None (if filterStatus cs = ''all'' then None else Some (filterStatus cs))) = Inl err"
  then show "let s' = snd (fetchConsents getConsents cs);
         msg = or_else (message err) ''Failed to fetch consents''
     in error s' = Some msg \<and> consents s' = [] \<and> \<not> loading s' \<and>
        render_consent_management s' = ErrorView (''Error: '' @ msg)"
    using or_else_truthy [of "''Failed to fetch consents''" "message err"]
    by (simp add: fetchConsents_def fetchConsents_settle_def Let_def render_consent_management_def jsx_text_def)
next
  assume "getPatients (GetPatients (currentPage ps) 10 (searchTerm ps)) = Inl err"
  then show "let s' = snd (fetchPatients getPatients ps);
         msg = or_else (message err) ''Failed to fetch patients''
     in error s' = Some msg \<and> patients s' = [] \<and> \<not> loading s' \<and>
        pagination s' = pagination ps \<and> currentPage s' = currentPage ps \<and>
        render_patient_list s' = ErrorView (''Error: '' @ msg)"
    using or_else_truthy [of "''Failed to fetch patients''" "message err"]
    by (simp add: fetchPatients_def fetchPatients_settle_def fetch_begin_def Let_def
        render_patient_list_def jsx_text_def)
next
  show "rejected (promise_all2 records_first (getPatient (GetPatient pid))
                (getPatientRecords (GetPatientRecords pid)))
      = (rejected (getPatient (GetPatient pid)) \<or>
         rejected (getPatientRecords (GetPatientRecords pid)))"
    by (simp add: rejected_def promise_all2_def split: sum.splits)
next
  assume "promise_all2 records_first (getPatient (GetPatient pid))
       (getPatientRecords (GetPatientRecords pid)) = Inl err"
  then show "getPatient (GetPatient pid) = Inl err \<or> getPatientRecords (GetPatientRecords pid) = Inl err"
    by (auto simp add: promise_all2_def split: sum.splits if_splits)
next
  assume "promise_all2 records_first (getPatient (GetPatient pid))
       (getPatientRecords (GetPatientRecords pid)) = Inl err"
  then show "let s' = snd (fetchPatientData getPatient getPatientRecords records_first pid ds);
         msg = or_else (message err) ''Failed to fetch patient data''
     in error s' = Some msg \<and> patient s' = None \<and> records s' = [] \<and> \<not> loading s' \<and>
        render_patient_detail s' = ErrorView (''Error loading patient: '' @ msg)"
    using or_else_Some_self [of "''Failed to fetch patient data''" "message err" "''Patient not found''"]
    by (simp add: fetchPatientData_def fetchPatientData_settle_def Let_def render_patient_detail_def)
next
  assume "getTransactions (GetTransactions None 20) = Inl err"
  then show "let s' = snd (fetchTransactions getTransactions ts);
         msg = or_else (message err) ''Failed to fetch transactions''
     in error s' = Some msg \<and> transactions s' = [] \<and> \<not> loading s' \<and>
        render_transaction_history account s' = ErrorView (''Error: '' @ msg)"
    using or_else_truthy [of "''Failed to fetch transactions''" "message err"]
    by (simp add: fetchTransactions_def fetchTransactions_settle_def Let_def render_transaction_history_def jsx_text_def)
next
  assume "getStats GetStats = Inl err"
  then show "let s' = snd (fetchStats getStats ss);
         msg = or_else (message err) ''Failed to fetch statistics''
     in error s' = Some msg \<and> stats s' = None \<and> \<not> loading s' \<and>
        render_stats_dashboard s' = ErrorView (''Error loading statistics: '' @ msg)"
    using or_else_truthy [of "''Failed to fetch statistics''" "message err"]
      or_else_Some_self [of "''Failed to fetch statistics''" "message err" "''No data available''"]
    by (simp add: fetchStats_def fetchStats_settle_def Let_def render_stats_dashboard_def)
qed

theorem fetch_failure_policy_witness:
  "(let s' = snd (fetchConsents (\<lambda>req. Inl \<lparr>message = Some ''Network Error''\<rparr>) consent_initial)
    in error s' = Some ''Network Error'' \<and> consents s' = [] \<and> \<not> loading s' \<and>
       render_consent_management s' = ErrorView ''Error: Network Error'') \<and>
   (let s' = snd (fetchPatients (\<lambda>req. Inl \<lparr>message = Some ''Network Error''\<rparr>)
                    (patient_list_initial :: string patient_list_state))
    in error s' = Some ''Network Error'' \<and> patients s' = [] \<and> \<not> loading s' \<and>
       render_patient_list s' = ErrorView ''Error: Network Error'') \<and>
   (let s' = snd (fetchPatientData (\<lambda>req. Inr (Some ''patient-001''))
                    (\<lambda>req. Inl \<lparr>message = Some ''Network Error''\<rparr>) False ''patient-001''
                    (patient_detail_initial :: (string, string) patient_detail_state))
    in error s' = Some ''Network Error'' \<and> patient s' = None \<and> records s' = [] \<and>
       \<not> loading s' \<and>
       render_patient_detail s' = ErrorView ''Error loading patient: Network Error'') \<and>
   (let s' = snd (fetchTransactions (\<lambda>req. Inl \<lparr>message = Some ''Network Error''\<rparr>)
                    (transaction_initial :: string transaction_state))
    in error s' = Some ''Network Error'' \<and> transactions s' = [] \<and> \<not> loading s' \<and>
       render_transaction_history (Some ''0xabc'') s' = ErrorView ''Error: Network Error'') \<and>
   (let s' = snd (fetchStats (\<lambda>req. Inl \<lparr>message = Some ''Network Error''\<rparr>) stats_initial)
    in error s' = Some ''Network Error'' \<and> stats s' = None \<and> \<not> loading s' \<and>
       render_stats_dashboard s' = ErrorView ''Error loading statistics: Network Error'') \<and>
   (let s' = snd (fetchStats (\<lambda>req. Inl \<lparr>message = None\<rparr>) stats_initial)
    in error s' = Some ''Failed to fetch statistics'' \<and> stats s' = None \<and> \<not> loading s' \<and>
       render_stats_dashboard s' = ErrorView ''Error loading statistics: Failed to fetch statistics'')"
  using fetch_failure_policy
    [where getConsents = "\<lambda>req. Inl \<lparr>message = Some ''Network Error''\<rparr>"
       and cs = consent_initial
       and err = "\<lparr>message = Some ''Network Error''\<rparr>"
       and getPatients = "\<lambda>req. Inl \<lparr>message = Some ''Network Error''\<rparr>"
       and ps = "patient_list_initial :: string patient_list_state"
       and getPatient = "\<lambda>req. Inr (Some ''patient-001'')"
       and getPatientRecords = "\<lambda>req. Inl \<lparr>message = Some ''Network Error''\<rparr>"
       and records_first = False
       and pid = "''patient-001''"
       and ds = "patient_detail_initial :: (string, string) patient_detail_state"
       and getTransactions = "\<lambda>req. Inl \<lparr>message = Some ''Network Error''\<rparr>"
       and ts = "transaction_initial :: string transaction_state"
       and account = "Some ''0xabc''"
       and getStats = "\<lambda>req. Inl \<lparr>message = Some ''Network Error''\<rparr>"
       and ss = stats_initial]
    fetch_failure_policy
    [where getConsents = "\<lambda>req. Inl \<lparr>message = None\<rparr>"
       and cs = consent_initial
       and err = "\<lparr>message = None\<rparr>"
       and getPatients = "\<lambda>req. Inl \<lparr>message = None\<rparr>"
       and ps = "patient_list_initial :: string patient_list_state"
       and getPatient = "\<lambda>req. Inr (Some ''patient-001'')"
       and getPatientRecords = "\<lambda>req. Inl \<lparr>message = None\<rparr>"
       and records_first = False
       and pid = "''patient-001''"
       and ds = "patient_detail_initial :: (string, string) patient_detail_state"
       and getTransactions = "\<lambda>req. Inl \<lparr>message = None\<rparr>"
       and ts = "transaction_initial :: string transaction_state"
       and account = "Some ''0xabc''"
       and getStats = "\<lambda>req. Inl \<lparr>message = None\<rparr>"
       and ss = stats_initial]
  by (simp add: Let_def or_else_def promise_all2_def)

section \<open>Fetched entities\<close>

text \<open>
  When the response is an object, each fetch stores the array found in its field, or the
  empty array when the field holds none; the patient and the statistics are stored as
  received.
\<close>

lemma wrapped_entities_pass_through:
  "consents (fetchConsents_settle (Inr response_consents) cs) = or_empty response_consents"
  "patients (fetchPatients_settle (Inr response) ps) = or_empty (response_patients response)"
  "patient (fetchPatientData_settle (Inr (patientResponse, Wrapped response_records)) ds)
     = patientResponse"
  "records (fetchPatientData_settle (Inr (patientResponse, Wrapped response_records)) ds)
     = or_empty response_records"
  "transactions (fetchTransactions_settle (Inr response_transactions) ts)
     = or_empty response_transactions"
  "stats (fetchStats_settle (Inr response_stats) ss) = response_stats"
  by (simp_all add: fetchConsents_settle_def fetchPatients_settle_def fetchPatientData_settle_def
      fetchTransactions_settle_def fetchStats_settle_def records_field_def)

text \<open>
  C7 at PatientDetail. The comment above \<open>setRecords\<close> promises that a response which is
  the bare array of records is handled as well. It is not: on an array
  \<open>recordsResponse.records\<close> is \<open>undefined\<close>, and the component stores no records at all
  although the response carried two.
\<close>

theorem fetchPatientData_drops_direct_array:
  "fetchPatientData (\<lambda>req. Inr (Some ''patient-001''))
     (\<lambda>req. Inr (DirectArray [''record-1'', ''record-2''])) False ''patient-001''
     patient_detail_initial
   = ([Request (GetPatient ''patient-001''), Request (GetPatientRecords ''patient-001'')],
      \<lparr>loading = False, error = None, patient = Some ''patient-001'', records = []\<rparr>)"
  by (simp add: fetchPatientData_def fetchPatientData_settle_def promise_all2_def
      records_field_def or_empty_def fetch_begin_def patient_detail_initial_def Let_def)

section \<open>TransactionHistory and the connected wallet\<close>

text \<open>
  C10. For any two connected (non-empty) accounts the effect does the same thing: it
  issues the one request \<open>getTransactions(null, 20)\<close> and ends in the same state, so the
  stored transactions agree. Without an account the effect issues nothing and empties
  the list. In the render, the account shows only in the "Filtering for" line, which
  carries the formatted address.
\<close>

theorem transaction_fetch_ignores_account:
  "truthy account_a \<Longrightarrow> truthy account_b \<Longrightarrow>
   account_effect getTransactions account_a s = account_effect getTransactions account_b s \<and>
   fst (account_effect getTransactions account_a s) = [Request (GetTransactions None 20)] \<and>
   without_wallet_filter (render_transaction_history account_a s')
     = without_wallet_filter (render_transaction_history account_b s') \<and>
   (\<not> loading s' \<and> \<not> truthy (error s') \<longrightarrow>
      render_transaction_history account_a s' = MainView
        \<lparr>wallet_filter = Some (''Filtering for: '' @ formatWalletAddress account_a),
         transaction_cards =
           listing_of ''No transactions found for this wallet address.'' (transactions s')\<rparr>) \<and>
   (\<not> truthy account_off \<longrightarrow>
      account_effect getTransactions account_off s = ([], s\<lparr>transactions := [], loading := False\<rparr>))"
  by (simp add: account_effect_def fetchTransactions_def render_transaction_history_def
      without_wallet_filter_def Let_def)

theorem transaction_fetch_ignores_account_witness:
  "truthy (Some ''0x1111111111111111'') \<and> truthy (Some ''0x2222222222222222'') \<and>
   account_effect (\<lambda>req. Inr (Some [''tx-1'', ''tx-2''])) (Some ''0x1111111111111111'')
     (transaction_initial :: string transaction_state)
   = ([Request (GetTransactions None 20)],
      \<lparr>loading = False, error = None, transactions = [''tx-1'', ''tx-2'']\<rparr>) \<and>
   account_effect (\<lambda>req. Inr (Some [''tx-1'', ''tx-2''])) (Some ''0x2222222222222222'')
     (transaction_initial :: string transaction_state)
   = ([Request (GetTransactions None 20)],
      \<lparr>loading = False, error = None, transactions = [''tx-1'', ''tx-2'']\<rparr>) \<and>
   \<not> loading \<lparr>loading = False, error = None, transactions = [''tx-1'', ''tx-2'']\<rparr> \<and>
   \<not> truthy (error \<lparr>loading = False, error = None, transactions = [''tx-1'', ''tx-2'']\<rparr>) \<and>
   render_transaction_history (Some ''0x1111111111111111'')
     \<lparr>loading = False, error = None, transactions = [''tx-1'', ''tx-2'']\<rparr>
   = MainView \<lparr>wallet_filter = Some ''Filtering for: 0x111111...111111'',
               transaction_cards = Cards [''tx-1'', ''tx-2'']\<rparr> \<and>
   \<not> truthy (Some '''') \<and>
   account_effect (\<lambda>req. Inr (Some [''tx-1'', ''tx-2''])) (Some '''')
     \<lparr>loading = True, error = None, transactions = [''tx-0'']\<rparr>
   = ([], \<lparr>loading = False, error = None, transactions = []\<rparr>)"
proof -
  let ?api = "\<lambda>req :: request. Inr (Some [''tx-1'', ''tx-2'']) :: js_error + string list option"
  let ?done = "\<lparr>loading = False, error = None, transactions = [''tx-1'', ''tx-2'']\<rparr>"
  have a1: "truthy (Some ''0x1111111111111111'')" and a2: "truthy (Some ''0x2222222222222222'')"
    and a0: "\<not> truthy (Some '''')"
    by (simp_all add: truthy_def)
  have shown: "\<not> loading ?done" "\<not> truthy (error ?done)"
    by (simp_all add: truthy_def)
  have run2: "account_effect ?api (Some ''0x2222222222222222'') transaction_initial
     = ([Request (GetTransactions None 20)], ?done)"
    using a2
    by (simp add: account_effect_def fetchTransactions_def fetchTransactions_settle_def
        fetch_begin_def transaction_initial_def or_empty_def Let_def)
  note connected = transaction_fetch_ignores_account
    [OF a1 a2, where getTransactions = ?api and s = transaction_initial
       and account_off = "Some ''''" and s' = ?done]
  note disconnected = transaction_fetch_ignores_account
    [OF a1 a2, where getTransactions = ?api
       and s = "\<lparr>loading = True, error = None, transactions = [''tx-0'']\<rparr>"
       and account_off = "Some ''''" and s' = ?done]
  from connected have same:
    "account_effect ?api (Some ''0x1111111111111111'') transaction_initial
     = account_effect ?api (Some ''0x2222222222222222'') transaction_initial"
    by blast
  from connected shown have
    "render_transaction_history (Some ''0x1111111111111111'') ?done
     = MainView
        \<lparr>wallet_filter = Some (''Filtering for: '' @ formatWalletAddress (Some ''0x1111111111111111'')),
         transaction_cards =
           listing_of ''No transactions found for this wallet address.'' (transactions ?done)\<rparr>"
    by blast
  then have rendered:
    "render_transaction_history (Some ''0x1111111111111111'') ?done
     = MainView \<lparr>wallet_filter = Some ''Filtering for: 0x111111...111111'',
                 transaction_cards = Cards [''tx-1'', ''tx-2'']\<rparr>"
    by (simp add: formatWalletAddress_def slice2_def slice1_def slice_index_def listing_of_def)
  from disconnected a0 have cleared:
    "account_effect ?api (Some '''') \<lparr>loading = True, error = None, transactions = [''tx-0'']\<rparr>
     = ([], \<lparr>loading = False, error = None, transactions = []\<rparr>)"
    by simp
  show ?thesis using a1 a2 a0 shown run2 same rendered cleared by simp
qed

section \<open>PatientList: the debounced search\<close>

text \<open>
  Only the timeout's callback writes \<open>searchTerm\<close>; the page buttons and a settled
  fetch leave it and \<open>searchInput\<close> alone.
\<close>

lemma fetch_effect_keeps:
  "searchTerm (fetch_effect a b) = searchTerm b"
  "searchInput (fetch_effect a b) = searchInput b"
  "currentPage (fetch_effect a b) = currentPage b"
  by (simp_all add: fetch_effect_def fetch_begin_def)

lemma handlers_keep_search:
  "searchTerm (handlePreviousPage s) = searchTerm s"
  "searchTerm (handleNextPage s) = searchTerm s"
  "searchTerm (fetchPatients_settle outcome s) = searchTerm s"
  "searchInput (handlePreviousPage s) = searchInput s"
  "searchInput (handleNextPage s) = searchInput s"
  "searchInput (fetchPatients_settle outcome s) = searchInput s"
  by (simp_all add: handlePreviousPage_def handleNextPage_def fetchPatients_settle_def
      split: option.splits sum.splits)

lemma step_searchTerm_fires:
  "fires e w \<Longrightarrow>
   (\<exists>t. timer w = Some (t, searchTerm (component (step e w)))) \<and>
   currentPage (component (step e w)) = 1 \<and> timer (step e w) = None"
  by (cases e) (auto simp add: fires_def fetch_effect_keeps timer_callback_def split: option.splits)

lemma step_searchTerm_quiet:
  "\<not> fires e w \<Longrightarrow> searchTerm (component (step e w)) = searchTerm (component w)"
  by (cases e)
     (auto simp add: fires_def fetch_effect_keeps handlers_keep_search handleSearch_def
       split: option.splits)

lemma step_timer_invariant:
  assumes "\<forall>t x. timer w = Some (t, x) \<longrightarrow> x = searchInput (component w)"
  shows "\<forall>t x. timer (step e w) = Some (t, x) \<longrightarrow> x = searchInput (component (step e w))"
  using assms
  by (cases e)
     (auto simp add: fetch_effect_keeps handlers_keep_search handleSearch_def timer_callback_def
       split: option.splits if_splits)

lemma run_snoc: "run (es @ [e]) w = step e (run es w)"
  by (induction es arbitrary: w) simp_all

lemma reachable_timer_invariant:
  "timer (run es mount) = Some (t, x) \<Longrightarrow> x = searchInput (component (run es mount))"
proof (induction es arbitrary: t x rule: rev_induct)
  case Nil
  then show ?case by (simp add: mount_def fetch_begin_def patient_list_initial_def)
next
  case (snoc e es)
  have "\<forall>t x. timer (run es mount) = Some (t, x) \<longrightarrow> x = searchInput (component (run es mount))"
    using snoc.IH by blast
  from step_timer_invariant [OF this, of e] snoc.prems show ?case
    by (simp add: run_snoc)
qed

lemma no_early_update:
  "elapsed es < debounce_delay \<Longrightarrow>
   (\<forall>t x. timer w = Some (t, x) \<longrightarrow> clock w + elapsed es < t + debounce_delay) \<Longrightarrow>
   searchTerm (component (run es w)) = searchTerm (component w)"
proof (induction es arbitrary: w)
  case Nil
  then show ?case by simp
next
  case (Cons e es)
  have quiet: "\<not> fires e w"
    using Cons.prems by (cases e) (auto simp add: fires_def split: option.splits)
  have el: "elapsed es < debounce_delay"
    using Cons.prems(1) by (cases e) simp_all
  have inv: "\<forall>t x. timer (step e w) = Some (t, x) \<longrightarrow> clock (step e w) + elapsed es < t + debounce_delay"
    using Cons.prems by (cases e) (auto split: option.splits if_splits)
  from Cons.IH [OF el inv] step_searchTerm_quiet [OF quiet] show ?case by simp
qed

lemma eventually_updates:
  "no_Input es \<Longrightarrow>
   (timer w = Some (t, v) \<and> clock w < t + debounce_delay \<and>
      t + debounce_delay \<le> clock w + elapsed es) \<or>
   (timer w = None \<and> searchTerm (component w) = v) \<Longrightarrow>
   searchTerm (component (run es w)) = v"
proof (induction es arbitrary: w)
  case Nil
  then show ?case by auto
next
  case (Cons e es)
  have ni: "no_Input es" using Cons.prems(1) by (cases e) simp_all
  have "(timer (step e w) = Some (t, v) \<and> clock (step e w) < t + debounce_delay \<and>
           t + debounce_delay \<le> clock (step e w) + elapsed es) \<or>
        (timer (step e w) = None \<and> searchTerm (component (step e w)) = v)"
    using Cons.prems
    by (cases e)
       (auto simp add: fetch_effect_keeps handlers_keep_search timer_callback_def
         split: option.splits if_splits)
  from Cons.IH [OF ni this] show ?case by simp
qed

text \<open>
  C2. The debounce interval is 500 ms. After the search box changes to \<open>v\<close>, whatever
  else happens (more typing included), \<open>searchTerm\<close> keeps its value for as long as less
  than 500 ms have passed; once 500 ms have passed with no further edit, \<open>searchTerm\<close>
  is \<open>v\<close>. In every state the component can reach from its mount, the callback is the
  only event that changes \<open>searchTerm\<close>, it writes the \<open>searchInput\<close> of that moment,
  never an older one, and it leaves \<open>currentPage\<close> at 1.
\<close>

theorem debounced_search:
  "(v \<noteq> searchInput (component w) \<and> elapsed es < debounce_delay \<longrightarrow>
      searchTerm (component (run (Input v # es) w)) = searchTerm (component w)) \<and>
   (v \<noteq> searchInput (component w) \<and> no_Input es \<and> debounce_delay \<le> elapsed es \<longrightarrow>
      searchTerm (component (run (Input v # es) w)) = v) \<and>
   (fires e (run tr mount) \<longrightarrow>
      searchTerm (component (step e (run tr mount))) = searchInput (component (run tr mount)) \<and>
      searchInput (component (step e (run tr mount))) = searchInput (component (run tr mount)) \<and>
      currentPage (component (step e (run tr mount))) = 1) \<and>
   (\<not> fires e (run tr mount) \<longrightarrow>
      searchTerm (component (step e (run tr mount))) = searchTerm (component (run tr mount))) \<and>
   debounce_delay = 500"
proof (intro conjI impI)
  assume h: "v \<noteq> searchInput (component w) \<and> elapsed es < debounce_delay"
  let ?w1 = "step (Input v) w"
  have "\<forall>t x. timer ?w1 = Some (t, x) \<longrightarrow> clock ?w1 + elapsed es < t + debounce_delay"
    using h by simp
  moreover from h have "elapsed es < debounce_delay" by simp
  ultimately have "searchTerm (component (run es ?w1)) = searchTerm (component ?w1)"
    by (rule no_early_update [rotated])
  then show "searchTerm (component (run (Input v # es) w)) = searchTerm (component w)"
    using h by (simp add: handleSearch_def)
next
  assume h: "v \<noteq> searchInput (component w) \<and> no_Input es \<and> debounce_delay \<le> elapsed es"
  let ?w1 = "step (Input v) w"
  have "(timer ?w1 = Some (clock w, v) \<and> clock ?w1 < clock w + debounce_delay \<and>
           clock w + debounce_delay \<le> clock ?w1 + elapsed es) \<or>
        (timer ?w1 = None \<and> searchTerm (component ?w1) = v)"
    using h by (simp add: debounce_delay_def)
  moreover from h have "no_Input es" by simp
  ultimately have "searchTerm (component (run es ?w1)) = v"
    by (rule eventually_updates [rotated])
  then show "searchTerm (component (run (Input v # es) w)) = v" by simp
next
  assume f: "fires e (run tr mount)"
  then obtain t x where tm: "timer (run tr mount) = Some (t, x)"
    by (cases e) (auto simp add: fires_def split: option.splits)
  then have x: "x = searchInput (component (run tr mount))"
    by (rule reachable_timer_invariant)
  from step_searchTerm_fires [OF f] tm x
  show "searchTerm (component (step e (run tr mount))) = searchInput (component (run tr mount))"
    by simp
  from f show "searchInput (component (step e (run tr mount))) = searchInput (component (run tr mount))"
    by (cases e) (auto simp add: fires_def fetch_effect_keeps timer_callback_def split: option.splits)
  from step_searchTerm_fires [OF f]
  show "currentPage (component (step e (run tr mount))) = 1" by simp
next
  assume "\<not> fires e (run tr mount)"
  then show "searchTerm (component (step e (run tr mount))) = searchTerm (component (run tr mount))"
    by (rule step_searchTerm_quiet)
next
  show "debounce_delay = 500" by (simp add: debounce_delay_def)
qed

theorem debounced_search_witness:
  "''ab'' \<noteq> searchInput (component (run [Input ''a'', Elapse 200] (mount :: string browser))) \<and>
   elapsed ([Elapse 499] :: string event list) < debounce_delay \<and>
   searchTerm (component (run (Input ''ab'' # [Elapse 499])
      (run [Input ''a'', Elapse 200] (mount :: string browser)))) = '''' \<and>
   no_Input ([Elapse 499, ClickNext, Elapse 1] :: string event list) \<and>
   debounce_delay \<le> elapsed ([Elapse 499, ClickNext, Elapse 1] :: string event list) \<and>
   searchTerm (component (run (Input ''ab'' # [Elapse 499, ClickNext, Elapse 1])
      (run [Input ''a'', Elapse 200] (mount :: string browser)))) = ''ab'' \<and>
   fires (Elapse 1) (run [Input ''a'', Elapse 200, Input ''ab'', Elapse 499] (mount :: string browser)) \<and>
   searchTerm (component (step (Elapse 1)
      (run [Input ''a'', Elapse 200, Input ''ab'', Elapse 499] (mount :: string browser)))) = ''ab'' \<and>
   currentPage (component (step (Elapse 1)
      (run [Input ''a'', Elapse 200, Input ''ab'', Elapse 499] (mount :: string browser)))) = 1 \<and>
   \<not> fires ClickNext (run [Input ''a'', Elapse 200, Input ''ab'', Elapse 499] (mount :: string browser)) \<and>
   searchTerm (component (step ClickNext
      (run [Input ''a'', Elapse 200, Input ''ab'', Elapse 499] (mount :: string browser)))) = ''''"
proof -
  let ?w2 = "run [Input ''a'', Elapse 200] (mount :: string browser)"
  let ?w4 = "run [Input ''a'', Elapse 200, Input ''ab'', Elapse 499] (mount :: string browser)"
  have w2: "?w2
     = \<lparr>component = \<lparr>loading = True, error = None, patients = [], searchTerm = '''',
                      searchInput = ''a'', currentPage = 1, pagination = None\<rparr>,
        clock = 200, timer = Some (0, ''a'')\<rparr>"
    by (simp add: mount_def fetch_begin_def patient_list_initial_def handleSearch_def
        debounce_delay_def)
  have w4: "?w4
     = \<lparr>component = \<lparr>loading = True, error = None, patients = [], searchTerm = '''',
                      searchInput = ''ab'', currentPage = 1, pagination = None\<rparr>,
        clock = 699, timer = Some (200, ''ab'')\<rparr>"
    by (simp add: mount_def fetch_begin_def patient_list_initial_def handleSearch_def
        debounce_delay_def)
  have s2: "searchTerm (component ?w2) = ''''" and i2: "searchInput (component ?w2) = ''a''"
    by (simp_all only: w2) simp_all
  have s4: "searchTerm (component ?w4) = ''''" and i4: "searchInput (component ?w4) = ''ab''"
    by (simp_all only: w4) simp_all
  have f1: "fires (Elapse 1) ?w4"
    by (simp only: w4) (simp add: fires_def debounce_delay_def)
  have f2: "\<not> fires ClickNext ?w4"
    by (simp add: fires_def)
  have h1: "''ab'' \<noteq> searchInput (component ?w2)"
    by (simp only: i2) simp
  have e1: "elapsed ([Elapse 499] :: string event list) < debounce_delay"
    and e2: "debounce_delay \<le> elapsed ([Elapse 499, ClickNext, Elapse 1] :: string event list)"
    and n2: "no_Input ([Elapse 499, ClickNext, Elapse 1] :: string event list)"
    by (simp_all add: debounce_delay_def)
  note early = debounced_search
    [where v = "''ab''" and w = ?w2 and es = "[Elapse 499]" and e = "Elapse 1"
       and tr = "[Input ''a'', Elapse 200, Input ''ab'', Elapse 499]"]
  note late = debounced_search
    [where v = "''ab''" and w = ?w2 and es = "[Elapse 499, ClickNext, Elapse 1]"
       and e = "ClickNext" and tr = "[Input ''a'', Elapse 200, Input ''ab'', Elapse 499]"]
  from early h1 e1
  have "searchTerm (component (run (Input ''ab'' # [Elapse 499]) ?w2)) = searchTerm (component ?w2)"
    by blast
  with s2 have c1: "searchTerm (component (run (Input ''ab'' # [Elapse 499]) ?w2)) = ''''"
    by (simp only:)
  from late h1 e2 n2
  have c2: "searchTerm (component (run (Input ''ab'' # [Elapse 499, ClickNext, Elapse 1]) ?w2)) = ''ab''"
    by blast
  from early f1
  have "searchTerm (component (step (Elapse 1) ?w4)) = searchInput (component ?w4) \<and>
        currentPage (component (step (Elapse 1) ?w4)) = 1"
    by blast
  with i4 have c3: "searchTerm (component (step (Elapse 1) ?w4)) = ''ab'' \<and>
        currentPage (component (step (Elapse 1) ?w4)) = 1"
    by (simp only:)
  from late f2
  have "searchTerm (component (step ClickNext ?w4)) = searchTerm (component ?w4)"
    by blast
  with s4 have c4: "searchTerm (component (step ClickNext ?w4)) = ''''"
    by (simp only:)
  from h1 e1 c1 n2 e2 c2 f1 c3 f2 c4 show ?thesis by blast
qed

end
